theory Spec2Isabelle
  imports Complex_Main
begin

section \<open>Python values, strings and exceptions\<close>

text \<open>
  The debugger of \<^verbatim>\<open>wsl-chrome-mcp.py\<close> is a Python class. Its strings are modelled
  as \<^typ>\<open>string\<close>, its unbounded integers as \<^typ>\<open>int\<close> (counts as \<^typ>\<open>nat\<close>),
  and its clock readings and floating-point quantities as \<^typ>\<open>rat\<close>, with exact
  arithmetic. Decoded JSON and the free-form dictionaries of the code are values of
  \<open>pyval\<close>; a dictionary is an association list read with \<^const>\<open>map_of\<close>.
\<close>

datatype pyval =
    PNone
  | PBool bool
  | PInt int
  | PFloat rat
  | PStr string
  | PList "pyval list"
  | PDict "(string \<times> pyval) list"

type_synonym pydict = "(string \<times> pyval) list"

datatype error =
    Exception string
  | ValueError string
  | KeyError string
  | TypeError string
  | AttributeError string
  | ZeroDivisionError
  | OSError string

text \<open>\<^verbatim>\<open>bool(v)\<close>: the truth value Python gives a value in \<^verbatim>\<open>if v\<close> and \<^verbatim>\<open>not v\<close>.\<close>

fun truthy :: "pyval \<Rightarrow> bool" where
  "truthy PNone = False"
| "truthy (PBool b) = b"
| "truthy (PInt i) = (i \<noteq> 0)"
| "truthy (PFloat r) = (r \<noteq> 0)"
| "truthy (PStr s) = (s \<noteq> [])"
| "truthy (PList xs) = (xs \<noteq> [])"
| "truthy (PDict kvs) = (kvs \<noteq> [])"

text \<open>\<^verbatim>\<open>if self.current_session\<close>, \<^verbatim>\<open>if not tab_id\<close>: an optional string is true when it
  is neither \<^verbatim>\<open>None\<close> nor empty.\<close>

fun truthy_str :: "string option \<Rightarrow> bool" where
  "truthy_str None = False"
| "truthy_str (Some s) = (s \<noteq> [])"

text \<open>\<^verbatim>\<open>sub in s\<close> for two strings: \<open>sub\<close> occurs in \<open>s\<close> as a contiguous block.\<close>

fun str_in :: "string \<Rightarrow> string \<Rightarrow> bool" where
  "str_in sub [] = (sub = [])"
| "str_in sub (c # cs) = (take (length sub) (c # cs) = sub \<or> str_in sub cs)"

text \<open>The name of the type of a value, a text between single quotes, and the
  \<^verbatim>\<open>AttributeError\<close> raised when a method is called on a value that does not have it.\<close>

fun type_name :: "pyval \<Rightarrow> string" where
  "type_name PNone = ''NoneType''"
| "type_name (PBool b) = ''bool''"
| "type_name (PInt i) = ''int''"
| "type_name (PFloat r) = ''float''"
| "type_name (PStr s) = ''str''"
| "type_name (PList xs) = ''list''"
| "type_name (PDict kvs) = ''dict''"

definition quoted :: "string \<Rightarrow> string" where
  "quoted s = [CHR 0x27] @ s @ [CHR 0x27]"

definition no_attribute :: "pyval \<Rightarrow> string \<Rightarrow> error" where
  "no_attribute v attr =
     AttributeError (quoted (type_name v) @ '' object has no attribute '' @ quoted attr)"

text \<open>\<^verbatim>\<open>d.get(key, default)\<close> on a value that should be a dictionary; any other value
  has no \<^verbatim>\<open>get\<close> attribute.\<close>

fun py_get :: "pyval \<Rightarrow> string \<Rightarrow> pyval \<Rightarrow> error + pyval" where
  "py_get (PDict kvs) k dflt = Inr (case map_of kvs k of None \<Rightarrow> dflt | Some v \<Rightarrow> v)"
| "py_get v k dflt = Inl (no_attribute v ''get'')"

text \<open>\<^verbatim>\<open>key in v\<close>, \<^verbatim>\<open>v[key]\<close> with a string key, \<^verbatim>\<open>len(v)\<close> and the elements
  that \<^verbatim>\<open>for x in v\<close> visits.\<close>

fun py_contains :: "pyval \<Rightarrow> string \<Rightarrow> error + bool" where
  "py_contains (PDict kvs) k = Inr (map_of kvs k \<noteq> None)"
| "py_contains (PList xs) k = Inr (PStr k \<in> set xs)"
| "py_contains (PStr s) k = Inr (str_in k s)"
| "py_contains v k = Inl (TypeError (''argument of type '' @ quoted (type_name v) @ '' is not iterable''))"

fun py_getitem :: "pyval \<Rightarrow> string \<Rightarrow> error + pyval" where
  "py_getitem (PDict kvs) k = (case map_of kvs k of None \<Rightarrow> Inl (KeyError k) | Some v \<Rightarrow> Inr v)"
| "py_getitem (PList xs) k = Inl (TypeError ''list indices must be integers or slices, not str'')"
| "py_getitem (PStr s) k = Inl (TypeError (''string indices must be integers, not '' @ quoted ''str''))"
| "py_getitem v k = Inl (TypeError (quoted (type_name v) @ '' object is not subscriptable''))"

fun py_len :: "pyval \<Rightarrow> error + nat" where
  "py_len (PStr s) = Inr (length s)"
| "py_len (PList xs) = Inr (length xs)"
| "py_len (PDict kvs) = Inr (length kvs)"
| "py_len v = Inl (TypeError (''object of type '' @ quoted (type_name v) @ '' has no len()''))"

fun py_iter :: "pyval \<Rightarrow> error + pyval list" where
  "py_iter (PList xs) = Inr xs"
| "py_iter (PDict kvs) = Inr (map (\<lambda>kv. PStr (fst kv)) kvs)"
| "py_iter (PStr s) = Inr (map (\<lambda>c. PStr [c]) s)"
| "py_iter v = Inl (TypeError (quoted (type_name v) @ '' object is not iterable''))"

text \<open>\<^verbatim>\<open>str(e)\<close> for a caught exception.\<close>

fun error_text :: "error \<Rightarrow> string" where
  "error_text (Exception m) = m"
| "error_text (ValueError m) = m"
| "error_text (KeyError k) = quoted k"
| "error_text (TypeError m) = m"
| "error_text (AttributeError m) = m"
| "error_text ZeroDivisionError = ''division by zero''"
| "error_text (OSError m) = m"

text \<open>\<^verbatim>\<open>xs[i:]\<close>: a negative start counts from the end, and a start before the first
  element is the first element.\<close>

definition py_slice_from :: "int \<Rightarrow> 'a list \<Rightarrow> 'a list" where
  "py_slice_from i xs =
     (if i < 0 then drop (nat (max 0 (int (length xs) + i))) xs else drop (nat i) xs)"

text \<open>\<^verbatim>\<open>int(x)\<close> on a float truncates towards zero.\<close>

definition py_int :: "rat \<Rightarrow> int" where
  "py_int x = (if 0 \<le> x then \<lfloor>x\<rfloor> else \<lceil>x\<rceil>)"

text \<open>\<^verbatim>\<open>str.lower\<close> and \<^verbatim>\<open>str.upper\<close> on the ASCII letters; other bytes are kept.\<close>

definition lower_char :: "char \<Rightarrow> char" where
  "lower_char c =
     (case map_of (zip ''ABCDEFGHIJKLMNOPQRSTUVWXYZ'' ''abcdefghijklmnopqrstuvwxyz'') c of
        Some l \<Rightarrow> l
      | None \<Rightarrow> c)"

definition upper_char :: "char \<Rightarrow> char" where
  "upper_char c =
     (case map_of (zip ''abcdefghijklmnopqrstuvwxyz'' ''ABCDEFGHIJKLMNOPQRSTUVWXYZ'') c of
        Some u \<Rightarrow> u
      | None \<Rightarrow> c)"

definition lower :: "string \<Rightarrow> string" where
  "lower s = map lower_char s"

definition upper :: "string \<Rightarrow> string" where
  "upper s = map upper_char s"

text \<open>\<^verbatim>\<open>str(n)\<close> for an integer, as an f-string writes it.\<close>

definition digit_char :: "nat \<Rightarrow> char" where
  "digit_char n = ''0123456789'' ! n"

function str_nat :: "nat \<Rightarrow> string" where
  "str_nat n = (if n < 10 then [digit_char n] else str_nat (n div 10) @ [digit_char (n mod 10)])"
  by pat_completeness auto
termination
  by (relation "measure id") auto

definition str_int :: "int \<Rightarrow> string" where
  "str_int i = (if i < 0 then CHR ''-'' # str_nat (nat (- i)) else str_nat (nat i))"

text \<open>
  \<^verbatim>\<open>round(x, ndigits)\<close> on a float: Python rounds the exact value of the float to the
  nearest multiple of \<open>10 ^ - ndigits\<close>, a tie going to the even multiple. The value
  returned is the float nearest to that decimal; the model returns the decimal itself.
\<close>

definition py_round :: "rat \<Rightarrow> nat \<Rightarrow> rat" where
  "py_round x ndigits =
     (let s = x * 10 ^ ndigits;
          f = \<lfloor>s\<rfloor>;
          d = s - of_int f;
          r = (if d < 1 / 2 then f else if 1 / 2 < d then f + 1 else if even f then f else f + 1)
      in of_int r / 10 ^ ndigits)"

text \<open>A list comprehension whose condition may raise: the first exception ends it.\<close>

fun filter_raising :: "('a \<Rightarrow> error + bool) \<Rightarrow> 'a list \<Rightarrow> error + 'a list" where
  "filter_raising p [] = Inr []"
| "filter_raising p (x # xs) =
     (case p x of
        Inl e \<Rightarrow> Inl e
      | Inr b \<Rightarrow>
          (case filter_raising p xs of
             Inl e \<Rightarrow> Inl e
           | Inr ys \<Rightarrow> Inr (if b then x # ys else ys)))"

section \<open>The data classes\<close>

record DebugEvent =
  timestamp :: rat
  event_type :: string
  data :: pyval
  level :: string
  category :: string

text \<open>The fields \<^verbatim>\<open>url\<close>, \<^verbatim>\<open>method\<close>, \<^verbatim>\<open>timing\<close> and \<^verbatim>\<open>error_message\<close> of
  \<^verbatim>\<open>NetworkRequest\<close> carry the prefix \<open>req_\<close>: other classes have fields of these names.\<close>

record NetworkRequest =
  req_url :: string
  req_method :: string
  status :: "int option"
  req_timing :: "pydict option"
  headers :: "pydict option"
  response_size :: "int option"
  failed :: bool
  req_error_message :: "string option"

record UserFlowStep =
  step_name :: string
  action :: string
  selector :: "string option"
  expected_result :: "string option"
  screenshot_path :: "string option"
  success :: bool
  error_message :: "string option"
  timing :: "rat option"

section \<open>The results of the four analyzers and the report\<close>

text \<open>Every analyzer returns a dictionary with the keys \<^verbatim>\<open>score\<close> and
  \<^verbatim>\<open>recommendations\<close> and keys of its own.\<close>

record perspective =
  score :: int
  recommendations :: "string list"

record technical_result = perspective +
  console_errors :: nat
  session_errors :: nat
  react_errors :: nat
  api_errors :: nat
  failed_requests :: nat
  total_requests :: nat
  critical_issues :: "string list"

record ux_result = perspective +
  failed_user_flows :: nat
  successful_user_flows :: nat
  total_user_flows :: nat
  workout_flow_failures :: nat
  navigation_failures :: nat
  avg_interaction_time :: rat
  usability_issues :: "string list"

record performance_result = perspective +
  page_load_time :: rat
  memory_usage :: rat
  performance_grade :: string
  bottlenecks :: "string option list"

record data_result = perspective +
  total_api_calls :: nat
  successful_api_calls :: nat
  api_success_rate :: rat
  data_issues :: "string option list"

datatype perspective_result =
    Technical technical_result
  | Ux ux_result
  | Performance performance_result
  | Data data_result

text \<open>\<^verbatim>\<open>data['score']\<close>, \<^verbatim>\<open>data['recommendations']\<close> and \<^verbatim>\<open>data['critical_issues']\<close>
  on the dictionary of any analyzer; only the technical one has the last key.\<close>

fun score_of :: "perspective_result \<Rightarrow> int" where
  "score_of (Technical r) = score r"
| "score_of (Ux r) = score r"
| "score_of (Performance r) = score r"
| "score_of (Data r) = score r"

fun recommendations_of :: "perspective_result \<Rightarrow> string list" where
  "recommendations_of (Technical r) = recommendations r"
| "recommendations_of (Ux r) = recommendations r"
| "recommendations_of (Performance r) = recommendations r"
| "recommendations_of (Data r) = recommendations r"

fun critical_issues_of :: "perspective_result \<Rightarrow> string list option" where
  "critical_issues_of (Technical r) = Some (critical_issues r)"
| "critical_issues_of _ = None"

record report_summary =
  total_events :: nat
  errors :: nat
  warnings :: nat
  screenshots_taken :: nat
  user_flows_tested :: nat

record report =
  report_session_id :: string
  report_url :: string
  analysis_time :: string
  duration_minutes :: rat
  overall_score :: rat
  health_grade :: string
  report_summary :: report_summary
  perspectives :: "(string \<times> perspective_result) list"
  report_critical_issues :: "string list"
  report_recommendations :: "string list"
  next_steps :: "string list"

text \<open>A session. Its \<^verbatim>\<open>summary\<close> is a dictionary, empty (\<open>None\<close>) when the session is
  created; a report always has keys, so it is never the empty dictionary.\<close>

record DebugSession =
  session_id :: string
  url :: string
  start_time :: rat
  events :: "DebugEvent list"
  network_requests :: "NetworkRequest list"
  console_logs :: "pydict list"
  performance_metrics :: "string \<rightharpoonup> rat"
  screenshots :: "string list"
  user_flows :: "UserFlowStep list"
  summary :: "report option"

section \<open>The perspective analyzers\<close>

text \<open>\<^verbatim>\<open>'session' in log.get('message', '').lower()\<close>: a message that is not a string
  has no \<^verbatim>\<open>lower\<close>.\<close>

definition message_has :: "string \<Rightarrow> pydict \<Rightarrow> error + bool" where
  "message_has word entry =
     (case map_of entry ''message'' of
        None \<Rightarrow> Inr (str_in word (lower ''''))
      | Some (PStr s) \<Rightarrow> Inr (str_in word (lower s))
      | Some v \<Rightarrow> Inl (no_attribute v ''lower''))"

text \<open>\<^verbatim>\<open>{err.get('message')}\<close> in an f-string. It is reached only for console errors
  that went through \<open>message_has\<close>, whose message is a string or absent.\<close>

definition format_message :: "pydict \<Rightarrow> string" where
  "format_message err = (case map_of err ''message'' of Some (PStr s) \<Rightarrow> s | _ \<Rightarrow> ''None'')"

definition analyze_technical :: "DebugSession \<Rightarrow> error + technical_result" where
  "analyze_technical session =
     (let console_errors' = filter (\<lambda>entry. map_of entry ''level'' = Some (PStr ''error'')) (console_logs session);
          failed_requests' = filter failed (network_requests session)
      in case filter_raising (message_has ''session'') console_errors' of
           Inl e \<Rightarrow> Inl e
         | Inr session_errors' \<Rightarrow>
      (case filter_raising (message_has ''api'') console_errors' of
           Inl e \<Rightarrow> Inl e
         | Inr api_errors' \<Rightarrow>
      (let react_errors' = filter (\<lambda>entry. map_of entry ''type'' = Some (PStr ''react_error'')) console_errors';
           score' = (100 :: int);
           score' = (if length console_errors' > 0 then score' - 15 else score');
           score' = (if length failed_requests' > 0 then score' - 10 else score');
           score' = (if length session_errors' > 0 then score' - 25 else score');
           score' = (if length react_errors' > 0 then score' - 20 else score');
           critical_issues' =
               map (\<lambda>err. ''Session management error: '' @ format_message err) session_errors'
             @ map (\<lambda>err. ''React component error: '' @ format_message err) react_errors'
             @ map (\<lambda>err. ''API error: '' @ format_message err) api_errors';
           recommendations' =
               (if session_errors' \<noteq> [] then [''URGENT: Fix session management - this blocks user workflows''] else [])
             @ (if react_errors' \<noteq> [] then [''Fix React component errors for better stability''] else [])
             @ (if console_errors' \<noteq> [] then [''Address JavaScript console errors''] else [])
             @ (if critical_issues' = [] then [''Technical implementation looks solid''] else [])
       in Inr \<lparr> score = max score' 0,
                recommendations = recommendations',
                console_errors = length console_errors',
                session_errors = length session_errors',
                react_errors = length react_errors',
                api_errors = length api_errors',
                failed_requests = length failed_requests',
                total_requests = length (network_requests session),
                critical_issues = critical_issues' \<rparr>)))"

text \<open>\<^verbatim>\<open>flow.timing or 0\<close> and \<^verbatim>\<open>flow.error_message or 'Unknown error'\<close>.\<close>

definition timing_or_0 :: "UserFlowStep \<Rightarrow> rat" where
  "timing_or_0 flow = (case timing flow of None \<Rightarrow> 0 | Some t \<Rightarrow> t)"

definition error_message_or_unknown :: "UserFlowStep \<Rightarrow> string" where
  "error_message_or_unknown flow =
     (case error_message flow of None \<Rightarrow> ''Unknown error'' | Some m \<Rightarrow> if m = [] then ''Unknown error'' else m)"

definition analyze_ux :: "DebugSession \<Rightarrow> ux_result" where
  "analyze_ux session =
     (let failed_flows = filter (\<lambda>flow. \<not> success flow) (user_flows session);
          successful_flows = filter success (user_flows session);
          avg_interaction_time' =
            sum_list (map timing_or_0 (user_flows session)) / of_nat (max (length (user_flows session)) 1);
          workout_flow_failures' = filter (\<lambda>flow. str_in ''workout'' (lower (action flow))) failed_flows;
          navigation_failures' = filter (\<lambda>flow. str_in ''navigate'' (lower (action flow))) failed_flows;
          score' = (100 :: int);
          score' = (if length failed_flows > 0 then score' - int (length failed_flows) * 15 else score');
          score' = (if length workout_flow_failures' > 0 then score' - 25 else score');
          score' = (if avg_interaction_time' > 5 then score' - 10 else score');
          usability_issues' =
            map (\<lambda>flow. ''Failed: '' @ action flow @ '' - '' @ error_message_or_unknown flow) failed_flows;
          recommendations' =
              (if workout_flow_failures' \<noteq> [] then [''CRITICAL: Fix workout flow - core functionality is broken''] else [])
            @ (if navigation_failures' \<noteq> [] then [''Fix navigation issues for better user experience''] else [])
            @ (if avg_interaction_time' > 3 then [''Optimize interaction responsiveness''] else [])
            @ (if length failed_flows = 0 then [''User experience flows are working well''] else [])
      in \<lparr> score = max score' 0,
           recommendations = recommendations',
           failed_user_flows = length failed_flows,
           successful_user_flows = length successful_flows,
           total_user_flows = length (user_flows session),
           workout_flow_failures = length workout_flow_failures',
           navigation_failures = length navigation_failures',
           avg_interaction_time = py_round avg_interaction_time' 2,
           usability_issues = usability_issues' \<rparr>)"

definition analyze_performance :: "DebugSession \<Rightarrow> performance_result" where
  "analyze_performance session =
     (let metrics = performance_metrics session;
          page_load = (case metrics ''page_load_time'' of None \<Rightarrow> 0 | Some v \<Rightarrow> v);
          memory = (case metrics ''memory_usage'' of None \<Rightarrow> 0 | Some v \<Rightarrow> v);
          score' = (90 :: int);
          score' = (if page_load > 3000 then score' - 20 else score');
          score' = (if memory > 100 then score' - 15 else score')
      in \<lparr> score = max score' 0,
           recommendations =
             (if score' < 80 then [''Optimize bundle size and loading'', ''Implement performance monitoring'']
              else [''Performance is within acceptable ranges'']),
           page_load_time = page_load,
           memory_usage = memory,
           performance_grade = (if score' > 85 then ''A'' else if score' > 70 then ''B'' else ''C''),
           bottlenecks =
             [if page_load > 3000 then Some ''Slow page load time'' else None,
              if memory > 100 then Some ''High memory usage'' else None] \<rparr>)"

text \<open>\<^verbatim>\<open>req.status and 200 <= req.status < 300\<close>: false for a missing status and for
  status 0.\<close>

definition status_2xx :: "NetworkRequest \<Rightarrow> bool" where
  "status_2xx req = (case status req of None \<Rightarrow> False | Some c \<Rightarrow> c \<noteq> 0 \<and> 200 \<le> c \<and> c < 300)"

definition analyze_data :: "DebugSession \<Rightarrow> data_result" where
  "analyze_data session =
     (let api_requests = filter (\<lambda>req. str_in ''/api/'' (req_url req)) (network_requests session);
          successful_apis = filter status_2xx api_requests
      in \<lparr> score = (if length successful_apis = length api_requests then 95 else 75),
           recommendations =
             (if length successful_apis < length api_requests
              then [''Implement better API error handling'', ''Add retry logic for failed requests'']
              else [''Data flow is working correctly'']),
           total_api_calls = length api_requests,
           successful_api_calls = length successful_apis,
           api_success_rate =
             (of_nat (length successful_apis) / of_nat (max (length api_requests) 1)) * 100,
           data_issues = map req_error_message (filter failed api_requests) \<rparr>)"

section \<open>The report generator\<close>

definition extract_critical_issues :: "(string \<times> perspective_result) list \<Rightarrow> string list" where
  "extract_critical_issues analysis =
     concat (map (\<lambda>(perspective, dat).
                (if score_of dat < 70
                 then [upper perspective @ '': Score '' @ str_int (score_of dat) @ '' indicates critical issues'']
                 else [])
              @ (case critical_issues_of dat of Some issues \<Rightarrow> issues | None \<Rightarrow> []))
             analysis)"

definition extract_recommendations :: "(string \<times> perspective_result) list \<Rightarrow> string list" where
  "extract_recommendations analysis =
     concat (map (\<lambda>(perspective, dat).
                map (\<lambda>r. ''['' @ upper perspective @ ''] '' @ r) (recommendations_of dat))
             analysis)"

text \<open>\<^verbatim>\<open>analysis['technical']['score'] < 80\<close>: a missing perspective is a \<^verbatim>\<open>KeyError\<close>.\<close>

definition score_below_80 :: "(string \<times> perspective_result) list \<Rightarrow> string \<Rightarrow> error + bool" where
  "score_below_80 analysis perspective =
     (case map_of analysis perspective of
        None \<Rightarrow> Inl (KeyError perspective)
      | Some dat \<Rightarrow> Inr (score_of dat < 80))"

definition suggest_next_steps :: "(string \<times> perspective_result) list \<Rightarrow> error + string list" where
  "suggest_next_steps analysis =
     (case score_below_80 analysis ''technical'' of Inl e \<Rightarrow> Inl e | Inr technical_low \<Rightarrow>
      case score_below_80 analysis ''ux'' of Inl e \<Rightarrow> Inl e | Inr ux_low \<Rightarrow>
      case score_below_80 analysis ''performance'' of Inl e \<Rightarrow> Inl e | Inr performance_low \<Rightarrow>
      case score_below_80 analysis ''data'' of Inl e \<Rightarrow> Inl e | Inr data_low \<Rightarrow>
        (let steps =
             (if technical_low then [''Fix JavaScript errors and failed API requests''] else [])
           @ (if ux_low then [''Test and fix user interaction flows''] else [])
           @ (if performance_low then [''Optimize page load times and memory usage''] else [])
           @ (if data_low then [''Improve API reliability and error handling''] else [])
         in Inr (if steps = [] then [''Continue monitoring - application appears healthy''] else steps)))"

text \<open>\<^verbatim>\<open>sum(perspective_scores) / len(perspective_scores)\<close>: the scores are integers, so
  the sum is exact; the quotient is a float, which for four scores is the exact mean
  (a multiple of a quarter).\<close>

definition mean_score :: "(string \<times> perspective_result) list \<Rightarrow> error + rat" where
  "mean_score analysis =
     (let perspective_scores = map (\<lambda>(perspective, dat). score_of dat) analysis
      in if perspective_scores = [] then Inl ZeroDivisionError
         else Inr (of_int (sum_list perspective_scores) / of_nat (length perspective_scores)))"

section \<open>Programs: state and exceptions\<close>

text \<open>
  A method that changes state or may raise is a function from the state before the call
  to the outcome (the exception raised, or the value returned) and the state after it.
  An exception keeps the changes made before it was raised.
\<close>

type_synonym ('s, 'a) prog = "'s \<Rightarrow> (error + 'a) \<times> 's"

definition return :: "'a \<Rightarrow> ('s, 'a) prog" where
  "return a = (\<lambda>s. (Inr a, s))"

definition raise :: "error \<Rightarrow> ('s, 'a) prog" where
  "raise e = (\<lambda>s. (Inl e, s))"

definition bind :: "('s, 'a) prog \<Rightarrow> ('a \<Rightarrow> ('s, 'b) prog) \<Rightarrow> ('s, 'b) prog" where
  "bind m f = (\<lambda>s. case m s of (Inl e, s') \<Rightarrow> (Inl e, s') | (Inr a, s') \<Rightarrow> f a s')"

text \<open>\<^verbatim>\<open>try: m except Exception as e: h(e)\<close>.\<close>

definition try_except :: "('s, 'a) prog \<Rightarrow> (error \<Rightarrow> ('s, 'a) prog) \<Rightarrow> ('s, 'a) prog" where
  "try_except m h = (\<lambda>s. case m s of (Inl e, s') \<Rightarrow> h e s' | (Inr a, s') \<Rightarrow> (Inr a, s'))"

definition of_sum :: "error + 'a \<Rightarrow> ('s, 'a) prog" where
  "of_sum r = (case r of Inl e \<Rightarrow> raise e | Inr a \<Rightarrow> return a)"

section \<open>The world outside the debugger\<close>

text \<open>
  The debugger reaches the browser through \<^verbatim>\<open>subprocess.run\<close>. What the \<open>n\<close>-th run
  answers is a parameter of the model (\<open>procs\<close>), as are the readings of the clock, the
  identifiers \<^verbatim>\<open>uuid4\<close> draws, \<^verbatim>\<open>json.loads\<close>, \<^verbatim>\<open>isoformat\<close>, \<^verbatim>\<open>b64decode\<close> and whether
  a file can be opened for writing. The command text of a run (the PowerShell and
  JavaScript sources the code builds) is not interpreted, and \<^verbatim>\<open>time.sleep\<close> does nothing.
\<close>

record CompletedProcess =
  returncode :: int
  stdout :: string
  stderr :: string

datatype run_outcome = Spawn_error string | Completed CompletedProcess

record world =
  procs :: "nat \<Rightarrow> run_outcome"
  nprocs :: nat
  clock :: "nat \<Rightarrow> rat"
  ticks :: nat
  uuids :: "nat \<Rightarrow> string"
  nuuids :: nat
  json_loads :: "string \<Rightarrow> pyval option"
  isoformat :: "rat \<Rightarrow> string"
  b64decode :: "pyval \<Rightarrow> error + string"
  open_wb :: "string \<Rightarrow> error option"
  files :: "string \<rightharpoonup> string"

definition subprocess_run :: "(world, CompletedProcess) prog" where
  "subprocess_run =
     (\<lambda>w. case procs w (nprocs w) of
            Spawn_error m \<Rightarrow> (Inl (OSError m), w\<lparr>nprocs := Suc (nprocs w)\<rparr>)
          | Completed result \<Rightarrow> (Inr result, w\<lparr>nprocs := Suc (nprocs w)\<rparr>))"

text \<open>\<^verbatim>\<open>time.time()\<close> and \<^verbatim>\<open>datetime.now()\<close>.\<close>

definition now :: "(world, rat) prog" where
  "now = (\<lambda>w. (Inr (clock w (ticks w)), w\<lparr>ticks := Suc (ticks w)\<rparr>))"

definition now_isoformat :: "(world, string) prog" where
  "now_isoformat = bind now (\<lambda>t w. (Inr (isoformat w t), w))"

definition uuid4 :: "(world, string) prog" where
  "uuid4 = (\<lambda>w. (Inr (uuids w (nuuids w)), w\<lparr>nuuids := Suc (nuuids w)\<rparr>))"

text \<open>\<^verbatim>\<open>json.loads\<close> inside \<^verbatim>\<open>try ... except json.JSONDecodeError\<close>: \<open>None\<close> is the
  decoding error.\<close>

definition loads :: "string \<Rightarrow> (world, pyval option) prog" where
  "loads s = (\<lambda>w. (Inr (json_loads w s), w))"

definition write_file :: "string \<Rightarrow> string \<Rightarrow> (world, unit) prog" where
  "write_file path bytes =
     (\<lambda>w. case open_wb w path of
            Some e \<Rightarrow> (Inl e, w)
          | None \<Rightarrow> (Inr (), w\<lparr>files := (files w)(path \<mapsto> bytes)\<rparr>))"

section \<open>The shell bridge and the remote-debugging client\<close>

definition powershell_request :: "string \<Rightarrow> string \<Rightarrow> (world, pyval) prog" where
  "powershell_request http_method endpoint =
     bind subprocess_run (\<lambda>result.
       if returncode result \<noteq> 0
       then raise (Exception (''PowerShell request failed: '' @ stderr result))
       else bind (loads (stdout result)) (\<lambda>parsed.
              case parsed of
                Some v \<Rightarrow> return v
              | None \<Rightarrow> return (PDict [(''raw_output'', PStr (stdout result))])))"

definition start_chrome :: "(world, bool) prog" where
  "start_chrome = bind subprocess_run (\<lambda>result. return (returncode result = 0))"

definition list_tabs :: "(world, pyval list) prog" where
  "list_tabs =
     bind (powershell_request ''GET'' ''/json'') (\<lambda>response.
       case response of
         PList tabs \<Rightarrow> return tabs
       | PDict kvs \<Rightarrow>
           (case map_of kvs ''value'' of
              Some (PList tabs) \<Rightarrow> return tabs
            | _ \<Rightarrow> return [])
       | _ \<Rightarrow> return [])"

definition create_tab :: "string \<Rightarrow> (world, pyval) prog" where
  "create_tab u = powershell_request ''GET'' (''/json/new?'' @ u)"

text \<open>\<^verbatim>\<open>_send_devtools_command\<close> reads the clock for the command id, runs the bridge
  and, unlike \<^verbatim>\<open>_powershell_request\<close>, turns a non-zero exit into an error dictionary.\<close>

definition send_devtools_command :: "pyval \<Rightarrow> string \<Rightarrow> (world, pyval) prog" where
  "send_devtools_command tab_id command =
     bind now (\<lambda>t.
     bind subprocess_run (\<lambda>result.
       if returncode result = 0
       then bind (loads (stdout result)) (\<lambda>parsed.
              case parsed of
                Some v \<Rightarrow> return v
              | None \<Rightarrow> return (PDict [(''raw_output'', PStr (stdout result))]))
       else return (PDict [(''error'', PStr (stderr result))])))"

text \<open>The JavaScript snippets the primitives send, named by what is spliced into them.\<close>

datatype js_script =
    Click_script string
  | Fill_script string string
  | Wait_script string int
  | Error_script

definition execute_javascript :: "pyval \<Rightarrow> js_script \<Rightarrow> (world, pyval) prog" where
  "execute_javascript tab_id script = send_devtools_command tab_id ''Runtime.evaluate''"

text \<open>\<^verbatim>\<open>result.get('result', {}).get('value', {}).get(key, default)\<close>.\<close>

definition get_result_value :: "pyval \<Rightarrow> string \<Rightarrow> pyval \<Rightarrow> error + pyval" where
  "get_result_value result k dflt =
     (case py_get result ''result'' (PDict []) of
        Inl e \<Rightarrow> Inl e
      | Inr r \<Rightarrow>
          (case py_get r ''value'' (PDict []) of
             Inl e \<Rightarrow> Inl e
           | Inr v \<Rightarrow> py_get v k dflt))"

text \<open>The block every primitive starts with when it is given no tab:
  \<^verbatim>\<open>tabs = self.list_tabs()\<close>, then the identifier of the first tab, if there is one.\<close>

definition first_tab_id :: "(world, pyval option) prog" where
  "first_tab_id =
     bind list_tabs (\<lambda>tabs.
       case tabs of
         [] \<Rightarrow> return None
       | tab # _ \<Rightarrow> bind (of_sum (py_get tab ''id'' PNone)) (\<lambda>tab_id. return (Some tab_id)))"

definition resolve_tab :: "pyval \<Rightarrow> (world, pyval option) prog" where
  "resolve_tab tab_id = (if truthy tab_id then return (Some tab_id) else first_tab_id)"

section \<open>The debugger and its session store\<close>

record debugger =
  port :: int
  base_url :: string
  sessions :: "string \<rightharpoonup> DebugSession"
  current_session :: "string option"
  max_events :: int

type_synonym state = "world \<times> debugger"

text \<open>\<^verbatim>\<open>__init__\<close>.\<close>

definition init :: "int \<Rightarrow> debugger" where
  "init p = \<lparr> port = p,
             base_url = ''http://127.0.0.1:'' @ str_int p,
             sessions = Map.empty,
             current_session = None,
             max_events = 1000 \<rparr>"

definition lift_world :: "(world, 'a) prog \<Rightarrow> (state, 'a) prog" where
  "lift_world m = (\<lambda>(w, d). case m w of (r, w') \<Rightarrow> (r, (w', d)))"

definition get_self :: "(state, debugger) prog" where
  "get_self = (\<lambda>(w, d). (Inr d, (w, d)))"

definition modify_self :: "(debugger \<Rightarrow> debugger) \<Rightarrow> (state, unit) prog" where
  "modify_self f = (\<lambda>(w, d). (Inr (), (w, f d)))"

text \<open>\<^verbatim>\<open>self.sessions[sid]\<close>, and a change to the session object found there.\<close>

definition sessions_getitem :: "string \<Rightarrow> (state, DebugSession) prog" where
  "sessions_getitem sid =
     bind get_self (\<lambda>d. case sessions d sid of None \<Rightarrow> raise (KeyError sid) | Some session \<Rightarrow> return session)"

definition update_session :: "string \<Rightarrow> (DebugSession \<Rightarrow> DebugSession) \<Rightarrow> (state, unit) prog" where
  "update_session sid f =
     bind (sessions_getitem sid) (\<lambda>session.
       modify_self (\<lambda>d. d\<lparr>sessions := (sessions d)(sid \<mapsto> f session)\<rparr>))"

text \<open>The session \<^verbatim>\<open>if self.current_session:\<close> lets through.\<close>

definition active_session :: "debugger \<Rightarrow> string option" where
  "active_session d = (if truthy_str (current_session d) then current_session d else None)"

text \<open>\<^verbatim>\<open>session.events = session.events[-self.max_events:]\<close> after the append, when the
  list is longer than \<^verbatim>\<open>max_events\<close>.\<close>

definition append_event :: "int \<Rightarrow> DebugEvent \<Rightarrow> DebugSession \<Rightarrow> DebugSession" where
  "append_event cap event session =
     (let evs = events session @ [event]
      in session\<lparr>events := (if int (length evs) > cap then py_slice_from (- cap) evs else evs)\<rparr>)"

definition log_event :: "string \<Rightarrow> pyval \<Rightarrow> string \<Rightarrow> string \<Rightarrow> (state, unit) prog" where
  "log_event etype dat lvl cat =
     bind get_self (\<lambda>d.
       case active_session d of
         None \<Rightarrow> return ()
       | Some sid \<Rightarrow>
           bind (lift_world now) (\<lambda>t.
             update_session sid
               (append_event (max_events d)
                  \<lparr> timestamp = t, event_type = etype, data = dat, level = lvl, category = cat \<rparr>)))"

text \<open>\<^verbatim>\<open>get_session_report\<close> answers with a dictionary: the stored summary, or one with the
  single key \<^verbatim>\<open>error\<close>.\<close>

datatype report_reply = Error_reply string | Summary_reply report

definition get_session_report :: "string option \<Rightarrow> debugger \<Rightarrow> report_reply" where
  "get_session_report requested d =
     (let chosen = (if \<not> truthy_str requested then current_session d else requested)
      in if \<not> truthy_str chosen then Error_reply ''Session not found''
         else case chosen of
                None \<Rightarrow> Error_reply ''Session not found''
              | Some sid \<Rightarrow>
                  (case sessions d sid of
                     None \<Rightarrow> Error_reply ''Session not found''
                   | Some session \<Rightarrow>
                       (case summary session of
                          Some rep \<Rightarrow> Summary_reply rep
                        | None \<Rightarrow> Error_reply ''Session analysis not complete'')))"

section \<open>Screenshots\<close>

text \<open>The class body holds two definitions of \<^verbatim>\<open>_take_screenshot_fallback\<close>, the second
  replacing the first, and one of \<^verbatim>\<open>take_screenshot\<close>; the statements after the
  \<^verbatim>\<open>return\<close>s of the first fallback are never run. Neither method touches the session
  store.\<close>

text \<open>The path \<^verbatim>\<open>if save_path:\<close> lets through.\<close>

definition active_path :: "string option \<Rightarrow> string option" where
  "active_path save_path = (if truthy_str save_path then save_path else None)"

definition take_screenshot_fallback :: "string option \<Rightarrow> (world, pyval) prog" where
  "take_screenshot_fallback save_path =
     bind (case active_path save_path of
             Some path \<Rightarrow> return path
           | None \<Rightarrow> bind now (\<lambda>t. return (''/tmp/screenshot_'' @ str_int (py_int t) @ ''.png''))) (\<lambda>path.
     bind subprocess_run (\<lambda>result.
       if returncode result = 0
       then return (PDict [(''status'', PStr ''saved_fallback''), (''path'', PStr path),
                           (''method'', PStr ''screen_capture'')])
       else return (PDict [(''status'', PStr ''failed''), (''error'', PStr (stderr result))])))"

text \<open>\<^verbatim>\<open>'result' in response and 'data' in response['result']\<close>.\<close>

definition has_screenshot_data :: "pyval \<Rightarrow> error + bool" where
  "has_screenshot_data response =
     (case py_contains response ''result'' of
        Inl e \<Rightarrow> Inl e
      | Inr False \<Rightarrow> Inr False
      | Inr True \<Rightarrow>
          (case py_getitem response ''result'' of
             Inl e \<Rightarrow> Inl e
           | Inr r \<Rightarrow> py_contains r ''data''))"

definition take_screenshot :: "pyval \<Rightarrow> string option \<Rightarrow> (world, pyval) prog" where
  "take_screenshot tab_id save_path =
     bind (if truthy tab_id then return tab_id
           else bind list_tabs (\<lambda>tabs.
                  case tabs of
                    [] \<Rightarrow> raise (Exception ''No tabs available for screenshot'')
                  | tab # _ \<Rightarrow> of_sum (py_get tab ''id'' PNone))) (\<lambda>tab.
     bind subprocess_run (\<lambda>result.
       if returncode result \<noteq> 0 then take_screenshot_fallback save_path
       else bind (loads (stdout result)) (\<lambda>parsed.
              case parsed of
                None \<Rightarrow> return (PDict [(''status'', PStr ''failed''), (''error'', PStr ''Invalid response''),
                                         (''raw'', PStr (stdout result))])
              | Some response \<Rightarrow>
                  bind (of_sum (has_screenshot_data response)) (\<lambda>has_data.
                    if has_data then
                      bind (of_sum (py_getitem response ''result'')) (\<lambda>r.
                      bind (of_sum (py_getitem r ''data'')) (\<lambda>screenshot_data.
                        case active_path save_path of
                          Some path \<Rightarrow>
                            bind (\<lambda>w. (b64decode w screenshot_data, w)) (\<lambda>screenshot_bytes.
                            bind (write_file path screenshot_bytes) (\<lambda>_.
                              return (PDict [(''status'', PStr ''saved''), (''path'', PStr path),
                                             (''size'', PInt (int (length screenshot_bytes)))])))
                        | None \<Rightarrow>
                            bind (of_sum (py_len screenshot_data)) (\<lambda>n.
                              return (PDict [(''status'', PStr ''captured''), (''data'', screenshot_data),
                                             (''size'', PInt (int n))]))))
                    else return (PDict [(''status'', PStr ''failed''),
                                        (''error'', PStr ''No screenshot data returned'')])))))"

section \<open>The interaction primitives\<close>

text \<open>Each primitive resolves the tab, sends its script and, when a session is current,
  logs the outcome.\<close>

definition log_interaction :: "string \<Rightarrow> pyval \<Rightarrow> (state, unit) prog" where
  "log_interaction etype dat =
     bind get_self (\<lambda>d.
       if truthy_str (current_session d) then log_event etype dat ''info'' ''interaction''
       else return ())"

definition no_tabs_available :: pyval where
  "no_tabs_available = PDict [(''error'', PStr ''No tabs available'')]"

definition click_element :: "string \<Rightarrow> pyval \<Rightarrow> (state, pyval) prog" where
  "click_element sel tab_id =
     bind (lift_world (resolve_tab tab_id)) (\<lambda>tab.
       case tab of
         None \<Rightarrow> return no_tabs_available
       | Some tab \<Rightarrow>
           bind (lift_world (execute_javascript tab (Click_script sel))) (\<lambda>result.
           bind (log_interaction ''element_clicked''
                   (PDict [(''selector'', PStr sel), (''result'', result)])) (\<lambda>_.
             return result)))"

definition fill_input :: "string \<Rightarrow> string \<Rightarrow> pyval \<Rightarrow> (state, pyval) prog" where
  "fill_input sel val tab_id =
     bind (lift_world (resolve_tab tab_id)) (\<lambda>tab.
       case tab of
         None \<Rightarrow> return no_tabs_available
       | Some tab \<Rightarrow>
           bind (lift_world (execute_javascript tab (Fill_script sel val))) (\<lambda>result.
           bind (log_interaction ''input_filled''
                   (PDict [(''selector'', PStr sel), (''value'', PStr val), (''result'', result)])) (\<lambda>_.
             return result)))"

definition wait_for_element :: "string \<Rightarrow> int \<Rightarrow> pyval \<Rightarrow> (state, pyval) prog" where
  "wait_for_element sel timeout tab_id =
     bind (lift_world (resolve_tab tab_id)) (\<lambda>tab.
       case tab of
         None \<Rightarrow> return no_tabs_available
       | Some tab \<Rightarrow>
           bind (lift_world (execute_javascript tab (Wait_script sel (timeout * 1000)))) (\<lambda>result.
           bind (log_interaction ''element_wait''
                   (PDict [(''selector'', PStr sel), (''timeout'', PInt timeout), (''result'', result)])) (\<lambda>_.
             return result)))"

fun log_javascript_errors :: "pyval list \<Rightarrow> (state, unit) prog" where
  "log_javascript_errors [] = return ()"
| "log_javascript_errors (e # es) =
     bind (log_event ''javascript_error'' e ''error'' ''technical'') (\<lambda>_. log_javascript_errors es)"

definition get_page_errors :: "pyval \<Rightarrow> (state, pyval) prog" where
  "get_page_errors tab_id =
     bind (lift_world (resolve_tab tab_id)) (\<lambda>tab.
       case tab of
         None \<Rightarrow> return (PList [])
       | Some tab \<Rightarrow>
           bind (lift_world (execute_javascript tab Error_script)) (\<lambda>result.
           bind (of_sum (get_result_value result ''errors'' PNone)) (\<lambda>errs.
             if truthy errs then
               bind get_self (\<lambda>d.
               bind (if truthy_str (current_session d)
                     then bind (of_sum (py_iter errs)) log_javascript_errors
                     else return ()) (\<lambda>_.
                 return errs))
             else return (PList []))))"

section \<open>Collecting evidence\<close>

definition collect_page_info :: "(state, pyval) prog" where
  "collect_page_info =
     bind get_self (\<lambda>d.
       if \<not> truthy_str (current_session d) then return (PDict [])
       else
         bind (try_except
                 (bind (lift_world list_tabs) (\<lambda>tabs.
                    case tabs of
                      [] \<Rightarrow> return None
                    | tab # _ \<Rightarrow>
                        bind (of_sum (py_get tab ''title'' (PStr ''Unknown''))) (\<lambda>title.
                        bind (of_sum (py_get tab ''url'' (PStr ''Unknown''))) (\<lambda>u.
                        bind (of_sum (py_get tab ''faviconUrl'' (PStr ''None''))) (\<lambda>favicon.
                        bind (log_event ''page_info_collected''
                                (PDict [(''title'', title), (''url'', u), (''favicon'', favicon)])
                                ''info'' ''technical'') (\<lambda>_.
                          return (Some (PDict [(''title'', title), (''url'', u), (''favicon'', favicon)]))))))))
                 (\<lambda>e. bind (log_event ''page_info_failed'' (PDict [(''error'', PStr (error_text e))])
                                ''error'' ''technical'') (\<lambda>_. return None)))
           (\<lambda>page_info. case page_info of Some info \<Rightarrow> return info | None \<Rightarrow> return (PDict [])))"

fun console_entries :: "pyval list \<Rightarrow> (world, pydict list) prog" where
  "console_entries [] = return []"
| "console_entries (e # es) =
     bind (of_sum (py_get e ''message'' (PStr ''Unknown error''))) (\<lambda>message.
     bind (of_sum (py_get e ''type'' (PStr ''javascript_error''))) (\<lambda>ty.
     bind now_isoformat (\<lambda>ts.
     bind (console_entries es) (\<lambda>rest.
       return ([(''level'', PStr ''error''), (''message'', message), (''type'', ty),
                (''timestamp'', PStr ts)] # rest)))))"

definition collect_console_logs :: "(state, pydict list) prog" where
  "collect_console_logs =
     try_except
       (bind (get_page_errors PNone) (\<lambda>errs.
        bind (of_sum (py_iter errs)) (\<lambda>errs.
        bind (lift_world (console_entries errs)) (\<lambda>entries.
        bind (lift_world now_isoformat) (\<lambda>ts.
        bind get_self (\<lambda>d.
          let logs = entries @ [[(''level'', PStr ''info''),
                                 (''message'', PStr ''Real console monitoring active''),
                                 (''timestamp'', PStr ts)]]
          in bind (case active_session d of
                     None \<Rightarrow> return ()
                   | Some sid \<Rightarrow> update_session sid (\<lambda>s. s\<lparr>console_logs := console_logs s @ logs\<rparr>)) (\<lambda>_.
               return logs)))))))
       (\<lambda>e. bind (log_event ''console_collection_failed'' (PDict [(''error'', PStr (error_text e))])
                      ''error'' ''technical'') (\<lambda>_. return []))"

definition simulated_requests :: "NetworkRequest list" where
  "simulated_requests =
     [\<lparr> req_url = ''/api/auth/me'', req_method = ''GET'', status = Some 200,
         req_timing = Some [(''total'', PInt 150)], headers = None, response_size = None,
         failed = False, req_error_message = None \<rparr>,
      \<lparr> req_url = ''/api/workouts'', req_method = ''GET'', status = Some 200,
         req_timing = Some [(''total'', PInt 200)], headers = None, response_size = None,
         failed = False, req_error_message = None \<rparr>]"

definition collect_network_activity :: "(state, NetworkRequest list) prog" where
  "collect_network_activity =
     bind get_self (\<lambda>d.
     bind (case active_session d of
             None \<Rightarrow> return ()
           | Some sid \<Rightarrow>
               update_session sid (\<lambda>s. s\<lparr>network_requests := network_requests s @ simulated_requests\<rparr>)) (\<lambda>_.
     bind (log_event ''network_activity_collected''
             (PDict [(''requests'', PInt (int (length simulated_requests)))]) ''info'' ''network'') (\<lambda>_.
       return simulated_requests)))"

definition simulated_metrics :: "(string \<times> rat) list" where
  "simulated_metrics =
     [(''page_load_time'', 1200), (''dom_content_loaded'', 800), (''first_paint'', 600),
      (''largest_contentful_paint'', 1000), (''memory_usage'', 228 / 5)]"

definition collect_performance_metrics :: "(state, (string \<times> rat) list) prog" where
  "collect_performance_metrics =
     bind get_self (\<lambda>d.
     bind (case active_session d of
             None \<Rightarrow> return ()
           | Some sid \<Rightarrow>
               update_session sid
                 (\<lambda>s. s\<lparr>performance_metrics := performance_metrics s ++ map_of simulated_metrics\<rparr>)) (\<lambda>_.
     bind (log_event ''performance_metrics_collected''
             (PDict (map (\<lambda>(k, v). (k, PFloat v)) simulated_metrics)) ''info'' ''performance'') (\<lambda>_.
       return simulated_metrics)))"

section \<open>The scenario runner\<close>

text \<open>\<^verbatim>\<open>result.get('result', {}).get('value', {}).get('success', False)\<close>, read as a truth
  value: everything that uses the outcome of a scenario tests its truth.\<close>

definition succeeded :: "pyval \<Rightarrow> (state, bool) prog" where
  "succeeded result = bind (of_sum (get_result_value result ''success'' (PBool False))) (\<lambda>v. return (truthy v))"

definition test_navigate_to_workouts :: "(state, bool) prog" where
  "test_navigate_to_workouts =
     bind (click_element ''a[href='/workouts'], button:contains('Workouts'), nav a:contains('Workouts')'' PNone) (\<lambda>nav_result.
     bind (wait_for_element ''h1:contains('Workouts'), .workout-types, [data-testid='workouts-page']'' 5 PNone) (\<lambda>workouts_result.
     bind (succeeded nav_result) (\<lambda>nav_ok.
       if nav_ok then succeeded workouts_result else return False)))"

definition test_start_workout_button :: "(state, bool) prog" where
  "test_start_workout_button =
     bind (click_element ''button:contains('Start Workout'), a:contains('Start Workout'), [data-testid='start-workout']'' PNone) (\<lambda>button_result.
     bind (wait_for_element ''.exercise-selector, .workout-session, [data-testid='exercise-selection']'' 5 PNone) (\<lambda>session_result.
       succeeded button_result))"

text \<open>\<^verbatim>\<open>_test_select_exercise\<close> passes \<^verbatim>\<open>timeout=3\<close> to \<^verbatim>\<open>click_element\<close>, which has no such
  parameter: the call raises before it does anything.\<close>

definition test_select_exercise :: "(state, bool) prog" where
  "test_select_exercise =
     raise (TypeError (''EnhancedWSLChromeDebugger.click_element() got an unexpected keyword argument ''
                       @ quoted ''timeout''))"

definition test_log_set :: "(state, bool) prog" where
  "test_log_set =
     try_except
       (bind (fill_input ''input[type='number'], input[placeholder*='weight'], .weight-input'' ''50'' PNone) (\<lambda>weight_result.
        bind (fill_input ''input[placeholder*='reps'], .reps-input'' ''10'' PNone) (\<lambda>reps_result.
        bind (click_element ''button:contains('Log Set'), button:contains('Add Set'), .log-set-button'' PNone) (\<lambda>log_result.
        bind (succeeded weight_result) (\<lambda>weight_ok.
          if weight_ok then return True else succeeded reps_result)))))
       (\<lambda>e. return False)"

definition test_complete_workout :: "(state, bool) prog" where
  "test_complete_workout =
     bind (click_element ''button:contains('Complete'), button:contains('Finish'), .complete-workout'' PNone) (\<lambda>complete_result.
     bind (wait_for_element ''.workout-complete, .success-message, h1:contains('Complete')'' 5 PNone) (\<lambda>confirm_result.
       succeeded complete_result))"

definition test_progress_page :: "(state, bool) prog" where
  "test_progress_page =
     bind (click_element ''a[href='/progress'], button:contains('Progress'), nav a:contains('Progress')'' PNone) (\<lambda>nav_result.
     bind (wait_for_element ''.chart, .analytics, .progress-chart, [data-testid='progress-analytics']'' 5 PNone) (\<lambda>analytics_result.
       succeeded analytics_result))"

definition test_csv_export :: "(state, bool) prog" where
  "test_csv_export =
     bind (click_element ''button:contains('Export'), .export-button, [data-testid='export-csv']'' PNone) (\<lambda>export_result.
       succeeded export_result)"

definition test_user_preferences :: "(state, bool) prog" where
  "test_user_preferences =
     bind (click_element ''a[href='/profile'], button:contains('Profile'), .profile-link'' PNone) (\<lambda>profile_result.
     bind (wait_for_element ''.preferences, .settings, input[type='text'], .profile-form'' 5 PNone) (\<lambda>prefs_result.
       succeeded prefs_result))"

text \<open>The texts \<^verbatim>\<open>_execute_fitforge_scenario\<close> looks for in a scenario, in the order of
  its \<^verbatim>\<open>if\<close>/\<^verbatim>\<open>elif\<close> chain.\<close>

definition scenario_patterns :: "string list" where
  "scenario_patterns =
     [''Navigate to /workouts page'', ''Click Start Workout button'',
      ''Select exercise from workout types'', ''Log a set with weight and reps'',
      ''Complete workout session'', ''Check progress analytics page'',
      ''Test CSV export functionality'', ''Verify user preferences'']"

definition execute_fitforge_scenario :: "string \<Rightarrow> (state, bool) prog" where
  "execute_fitforge_scenario scenario =
     try_except
       (if str_in ''Navigate to /workouts page'' scenario then test_navigate_to_workouts
        else if str_in ''Click Start Workout button'' scenario then test_start_workout_button
        else if str_in ''Select exercise from workout types'' scenario then test_select_exercise
        else if str_in ''Log a set with weight and reps'' scenario then test_log_set
        else if str_in ''Complete workout session'' scenario then test_complete_workout
        else if str_in ''Check progress analytics page'' scenario then test_progress_page
        else if str_in ''Test CSV export functionality'' scenario then test_csv_export
        else if str_in ''Verify user preferences'' scenario then test_user_preferences
        else return True)
       (\<lambda>e. bind (log_event ''scenario_execution_error''
                      (PDict [(''scenario'', PStr scenario), (''error'', PStr (error_text e))])
                      ''error'' ''general'') (\<lambda>_. return False))"

text \<open>One turn of the loop of \<^verbatim>\<open>_run_test_scenarios\<close>, for the scenario at index \<open>i\<close>:
  the step as it stands when it is appended to \<^verbatim>\<open>flow_results\<close>. The handler overwrites
  every field the \<^verbatim>\<open>try\<close> block may have set.\<close>

definition scenario_step :: "nat \<Rightarrow> string \<Rightarrow> (state, UserFlowStep) prog" where
  "scenario_step i scenario =
     bind get_self (\<lambda>d.
       let step = \<lparr> step_name = ''scenario_'' @ str_nat (i + 1),
                    action = scenario,
                    selector = None,
                    expected_result = None,
                    screenshot_path =
                      Some (''/tmp/debug_''
                            @ (case current_session d of None \<Rightarrow> ''None'' | Some sid \<Rightarrow> sid)
                            @ ''_scenario_'' @ str_nat (i + 1) @ ''.png''),
                    success = True,
                    error_message = None,
                    timing = None \<rparr>
       in bind (lift_world now) (\<lambda>start_time.
            try_except
              (bind (lift_world (take_screenshot PNone (screenshot_path step))) (\<lambda>_.
               bind (execute_fitforge_scenario scenario) (\<lambda>ok.
               bind (lift_world now) (\<lambda>t.
                 if ok then
                   bind (log_event ''scenario_executed''
                           (PDict [(''scenario'', PStr scenario), (''success'', PBool True)])
                           ''info'' ''interaction'') (\<lambda>_.
                     return (step\<lparr>success := ok, timing := Some (t - start_time)\<rparr>))
                 else
                   bind (log_event ''scenario_failed''
                           (PDict [(''scenario'', PStr scenario), (''success'', PBool False)])
                           ''error'' ''interaction'') (\<lambda>_.
                     return (step\<lparr>success := ok, timing := Some (t - start_time),
                                   error_message := Some ''Scenario execution failed''\<rparr>))))))
              (\<lambda>e.
                 bind (lift_world now) (\<lambda>t.
                 bind (log_event ''scenario_failed''
                         (PDict [(''scenario'', PStr scenario), (''error'', PStr (error_text e))])
                         ''error'' ''interaction'') (\<lambda>_.
                   return (step\<lparr>success := False, error_message := Some (error_text e),
                                 timing := Some (t - start_time)\<rparr>))))))"

fun scenario_loop :: "nat \<Rightarrow> string list \<Rightarrow> (state, UserFlowStep list) prog" where
  "scenario_loop i [] = return []"
| "scenario_loop i (scenario # scenarios) =
     bind (scenario_step i scenario) (\<lambda>step.
     bind (scenario_loop (Suc i) scenarios) (\<lambda>flow_results.
       return (step # flow_results)))"

definition run_test_scenarios :: "string list \<Rightarrow> (state, UserFlowStep list) prog" where
  "run_test_scenarios scenarios =
     bind (scenario_loop 0 scenarios) (\<lambda>flow_results.
     bind get_self (\<lambda>d.
     bind (case active_session d of
             None \<Rightarrow> return ()
           | Some sid \<Rightarrow> update_session sid (\<lambda>s. s\<lparr>user_flows := user_flows s @ flow_results\<rparr>)) (\<lambda>_.
       return flow_results)))"

section \<open>Sessions and the analysis\<close>

fun enable_domains :: "string list \<Rightarrow> pyval \<Rightarrow> (world, unit) prog" where
  "enable_domains [] tab_id = return ()"
| "enable_domains (domain # domains) tab_id =
     bind (send_devtools_command tab_id (domain @ ''.enable'')) (\<lambda>_. enable_domains domains tab_id)"

definition enable_debug_monitoring :: "pyval \<Rightarrow> (state, bool) prog" where
  "enable_debug_monitoring tab_id =
     try_except
       (bind (lift_world (enable_domains [''Runtime'', ''Network'', ''Performance'', ''Page'', ''Log''] tab_id)) (\<lambda>_.
        bind (lift_world (send_devtools_command tab_id ''Network.setCacheDisabled'')) (\<lambda>_.
          return True)))
       (\<lambda>e. bind (log_event ''monitoring_setup_failed'' (PDict [(''error'', PStr (error_text e))])
                      ''error'' ''general'') (\<lambda>_. return False))"

definition new_session :: "string \<Rightarrow> string \<Rightarrow> rat \<Rightarrow> DebugSession" where
  "new_session sid u t =
     \<lparr> session_id = sid, url = u, start_time = t, events = [], network_requests = [],
       console_logs = [], performance_metrics = Map.empty, screenshots = [], user_flows = [],
       summary = None \<rparr>"

text \<open>\<^verbatim>\<open>start_debug_session\<close>, in two parts: \<open>connect_session\<close> is what the method does
  once the new session is stored and current (start Chrome, open the tab, enable the
  monitoring, record the start).\<close>

definition connect_session :: "string \<Rightarrow> string \<Rightarrow> (state, string) prog" where
  "connect_session sid u =
     bind (lift_world start_chrome) (\<lambda>started.
       if \<not> started then raise (Exception ''Failed to start Chrome'')
       else
         bind (try_except
                 (bind (lift_world (create_tab u)) (\<lambda>tab.
                  bind (of_sum (py_get tab ''id'' PNone)) (\<lambda>tab_id.
                    if truthy tab_id then
                      bind (enable_debug_monitoring tab_id) (\<lambda>_.
                      bind (lift_world now) (\<lambda>t'.
                        update_session sid
                          (\<lambda>s. s\<lparr>events := events s @
                                   [\<lparr> timestamp = t', event_type = ''session_started'',
                                       data = PDict [(''url'', PStr u), (''tab_id'', tab_id)],
                                       level = ''info'', category = ''interaction'' \<rparr>]\<rparr>)))
                    else return ())))
                 (\<lambda>e. log_event ''tab_creation_failed'' (PDict [(''error'', PStr (error_text e))])
                         ''warning'' ''general''))
           (\<lambda>_. return sid))"

definition start_debug_session :: "string \<Rightarrow> (state, string) prog" where
  "start_debug_session u =
     bind (lift_world uuid4) (\<lambda>sid.
     bind (lift_world now) (\<lambda>t.
     bind (modify_self (\<lambda>d. d\<lparr>sessions := (sessions d)(sid \<mapsto> new_session sid u t),
                                current_session := Some sid\<rparr>)) (\<lambda>_.
       connect_session sid u)))"

text \<open>\<^verbatim>\<open>self.perspectives\<close>, in the order of its keys, and the loop that runs every
  analyzer on the session.\<close>

definition perspectives_table :: "(string \<times> (DebugSession \<Rightarrow> error + perspective_result)) list" where
  "perspectives_table =
     [(''technical'', \<lambda>s. case analyze_technical s of Inl e \<Rightarrow> Inl e | Inr r \<Rightarrow> Inr (Technical r)),
      (''ux'', \<lambda>s. Inr (Ux (analyze_ux s))),
      (''performance'', \<lambda>s. Inr (Performance (analyze_performance s))),
      (''data'', \<lambda>s. Inr (Data (analyze_data s)))]"

fun run_analyzers ::
  "(string \<times> (DebugSession \<Rightarrow> error + perspective_result)) list \<Rightarrow> DebugSession
     \<Rightarrow> error + (string \<times> perspective_result) list" where
  "run_analyzers [] session = Inr []"
| "run_analyzers ((perspective, analyzer) # rest) session =
     (case analyzer session of
        Inl e \<Rightarrow> Inl e
      | Inr r \<Rightarrow>
          (case run_analyzers rest session of
             Inl e \<Rightarrow> Inl e
           | Inr analysis \<Rightarrow> Inr ((perspective, r) # analysis)))"

definition generate_debug_report ::
  "DebugSession \<Rightarrow> (string \<times> perspective_result) list \<Rightarrow> (world, report) prog" where
  "generate_debug_report session analysis =
     (let total_events' = length (events session);
          error_events = length (filter (\<lambda>e. level e = ''error'') (events session));
          warning_events = length (filter (\<lambda>e. level e = ''warning'') (events session))
      in bind (of_sum (mean_score analysis)) (\<lambda>overall.
         bind now_isoformat (\<lambda>time_text.
         bind now (\<lambda>t.
         bind (of_sum (suggest_next_steps analysis)) (\<lambda>steps.
           return \<lparr> report_session_id = session_id session,
                    report_url = url session,
                    analysis_time = time_text,
                    duration_minutes = (t - start_time session) / 60,
                    overall_score = py_round overall 1,
                    health_grade = (if overall > 85 then ''A'' else if overall > 70 then ''B'' else ''C''),
                    report_summary =
                      \<lparr> total_events = total_events', errors = error_events, warnings = warning_events,
                        screenshots_taken = length (screenshots session),
                        user_flows_tested = length (user_flows session) \<rparr>,
                    perspectives = analysis,
                    report_critical_issues = extract_critical_issues analysis,
                    report_recommendations = extract_recommendations analysis,
                    next_steps = steps \<rparr>)))))"

text \<open>\<^verbatim>\<open>analyze_webapp\<close>, in two parts: \<open>analyze_session\<close> is what the method does once
  \<^verbatim>\<open>session_id\<close> is chosen. The local \<^verbatim>\<open>session\<close> is the object stored under
  \<^verbatim>\<open>session_id\<close>, which the collectors and the runner change in place: the model reads
  it from the store again before the analyzers run.\<close>

definition analyze_session :: "string \<Rightarrow> string list option \<Rightarrow> (state, report) prog" where
  "analyze_session sid test_scenarios =
     bind (sessions_getitem sid) (\<lambda>_.
     bind (lift_world (take_screenshot PNone (Some (''/tmp/debug_'' @ sid @ ''_initial.png'')))) (\<lambda>_.
     bind collect_page_info (\<lambda>_.
     bind collect_console_logs (\<lambda>_.
     bind collect_network_activity (\<lambda>_.
     bind collect_performance_metrics (\<lambda>_.
     bind (case test_scenarios of
             None \<Rightarrow> return []
           | Some scenarios \<Rightarrow> if scenarios = [] then return [] else run_test_scenarios scenarios) (\<lambda>_.
     bind (sessions_getitem sid) (\<lambda>session.
     bind (of_sum (run_analyzers perspectives_table session)) (\<lambda>analysis.
     bind (lift_world (generate_debug_report session analysis)) (\<lambda>rep.
     bind (update_session sid (\<lambda>s. s\<lparr>summary := Some rep\<rparr>)) (\<lambda>_.
       return rep)))))))))))"

definition analyze_webapp :: "string option \<Rightarrow> string list option \<Rightarrow> (state, report) prog" where
  "analyze_webapp u test_scenarios =
     bind get_self (\<lambda>d.
       if \<not> truthy_str u \<and> \<not> truthy_str (current_session d)
       then raise (ValueError ''Must provide URL or have active session'')
       else
         bind (case active_path u of
                 Some target \<Rightarrow> start_debug_session target
               | None \<Rightarrow> (case current_session d of
                             Some sid \<Rightarrow> return sid
                           | None \<Rightarrow> raise (ValueError ''Must provide URL or have active session''))) (\<lambda>sid.
           analyze_session sid test_scenarios))"

section \<open>The script of \<^verbatim>\<open>wait_for_element\<close>\<close>





text \<open>\<open>n\<close> successive calls of \<^verbatim>\<open>_log_event\<close>, each with its arguments
  \<open>(event_type, data, level, category)\<close>.\<close>

fun log_event_calls :: "(string \<times> pyval \<times> string \<times> string) list \<Rightarrow> (state, unit) prog" where
  "log_event_calls [] = return ()"
| "log_event_calls ((etype, dat, lvl, cat) # calls) =
     bind (log_event etype dat lvl cat) (\<lambda>_. log_event_calls calls)"

section \<open>Notions used to state the properties, and example inputs\<close>

text \<open>An invariant of the debugger that a program keeps, whether it returns or raises;
  a program that returns whenever the invariant holds at its start; and a property of
  the value returned and the state reached by every run that returns.\<close>

definition preserves :: "(debugger \<Rightarrow> bool) \<Rightarrow> (state, 'a) prog \<Rightarrow> bool" where
  "preserves I m = (\<forall>w d. I d \<longrightarrow> I (snd (snd (m (w, d)))))"

definition never_raises :: "(debugger \<Rightarrow> bool) \<Rightarrow> (state, 'a) prog \<Rightarrow> bool" where
  "never_raises I m = (\<forall>w d. I d \<longrightarrow> (\<exists>a s'. m (w, d) = (Inr a, s')))"

definition ensures :: "('a \<Rightarrow> 's \<Rightarrow> bool) \<Rightarrow> ('s, 'a) prog \<Rightarrow> bool" where
  "ensures Q m = (\<forall>s a s'. m s = (Inr a, s') \<longrightarrow> Q a s')"

text \<open>Invariants that no change to the events of a stored session breaks, and
  invariants that no change to a stored session breaks if it keeps the summary.\<close>

definition stable_events :: "(debugger \<Rightarrow> bool) \<Rightarrow> bool" where
  "stable_events I =
     (\<forall>d sid s evs. I d \<longrightarrow> sessions d sid = Some s \<longrightarrow>
        I (d\<lparr>sessions := (sessions d)(sid \<mapsto> s\<lparr>events := evs\<rparr>)\<rparr>))"

definition stable :: "(debugger \<Rightarrow> bool) \<Rightarrow> bool" where
  "stable I =
     (\<forall>d sid s s'. I d \<longrightarrow> sessions d sid = Some s \<longrightarrow> summary s' = summary s \<longrightarrow>
        I (d\<lparr>sessions := (sessions d)(sid \<mapsto> s')\<rparr>))"

text \<open>The current session, if there is one, is in the store.\<close>

definition session_ok :: "debugger \<Rightarrow> bool" where
  "session_ok d = (case active_session d of None \<Rightarrow> True | Some sid \<Rightarrow> sessions d sid \<noteq> None)"

text \<open>\<open>d\<close> is \<open>d0\<close> but for the events of its sessions.\<close>

definition events_only :: "debugger \<Rightarrow> debugger \<Rightarrow> bool" where
  "events_only d0 d =
     (d\<lparr>sessions := sessions d0\<rparr> = d0
      \<and> (\<forall>sid. case sessions d0 sid of
                   None \<Rightarrow> sessions d sid = None
                 | Some s0 \<Rightarrow> (\<exists>evs. sessions d sid = Some (s0\<lparr>events := evs\<rparr>))))"

text \<open>Every session of \<open>d0\<close> is in \<open>d\<close> with the summary it had, and every other session of
  \<open>d\<close> has an empty summary.\<close>

definition summaries_kept :: "debugger \<Rightarrow> debugger \<Rightarrow> bool" where
  "summaries_kept d0 d =
     (\<forall>sid. case sessions d0 sid of
              Some s0 \<Rightarrow> (\<exists>s. sessions d sid = Some s \<and> summary s = summary s0)
            | None \<Rightarrow> (case sessions d sid of None \<Rightarrow> True | Some s \<Rightarrow> summary s = None))"

text \<open>The last \<open>n\<close> elements of a list, in their order.\<close>

definition keep_last :: "nat \<Rightarrow> 'a list \<Rightarrow> 'a list" where
  "keep_last n xs = drop (length xs - n) xs"

text \<open>The events that a sequence of calls of \<^verbatim>\<open>_log_event\<close> builds, the first of them
  stamped with the \<open>n\<close>-th reading of the clock.\<close>

fun events_of_calls :: "(nat \<Rightarrow> rat) \<Rightarrow> nat \<Rightarrow> (string \<times> pyval \<times> string \<times> string) list \<Rightarrow> DebugEvent list" where
  "events_of_calls clk n [] = []"
| "events_of_calls clk n ((etype, dat, lvl, cat) # calls) =
     \<lparr> timestamp = clk n, event_type = etype, data = dat, level = lvl, category = cat \<rparr>
     # events_of_calls clk (Suc n) calls"

text \<open>A world whose runs answer \<open>outcomes\<close> and whose JSON decoder is \<open>decode\<close>, and a
  run that exits with a given code, output and error text.\<close>

definition example_world :: "(nat \<Rightarrow> run_outcome) \<Rightarrow> (string \<Rightarrow> pyval option) \<Rightarrow> world" where
  "example_world outcomes decode =
     \<lparr> procs = outcomes, nprocs = 0, clock = (\<lambda>n. of_nat n), ticks = 0,
       uuids = (\<lambda>n. ''session-'' @ str_nat n), nuuids = 0,
       json_loads = decode, isoformat = (\<lambda>t. ''T''),
       b64decode = (\<lambda>v. case v of PStr s \<Rightarrow> Inr s | _ \<Rightarrow> Inl (TypeError ''b64decode'')),
       open_wb = (\<lambda>path. None), files = Map.empty \<rparr>"


definition clean_session :: DebugSession where
  "clean_session =
     (new_session ''s1'' ''http://localhost:5000'' 0)
       \<lparr> console_logs := [[(''level'', PStr ''info''), (''message'', PStr ''Real console monitoring active'')]],
         network_requests := simulated_requests \<rparr>"



definition capped_debugger :: debugger where
  "capped_debugger =
     (init 9222)\<lparr> sessions := [''s1'' \<mapsto> new_session ''s1'' ''http://localhost:5000'' 0],
                  current_session := Some ''s1'',
                  max_events := 2 \<rparr>"

definition three_calls :: "(string \<times> pyval \<times> string \<times> string) list" where
  "three_calls =
     [(''first'', PNone, ''info'', ''general''), (''second'', PNone, ''info'', ''general''),
      (''third'', PNone, ''error'', ''general'')]"



section \<open>Properties of the analyzers and the report\<close>

lemma length_filter_eq_iff: "(length (filter P xs) = length xs) = list_all P xs"
proof (induction xs)
  case Nil
  show ?case by simp
next
  case (Cons x xs)
  have le: "length (filter P xs) \<le> length xs" by (rule length_filter_le)
  show ?case
  proof (cases "P x")
    case True
    then show ?thesis using Cons by simp
  next
    case False
    have "length (filter P xs) \<noteq> Suc (length xs)" using le by linarith
    then show ?thesis using False by simp
  qed
qed

text \<open>
  C7. The score of the data analyzer is 95 when every request whose url contains
  \<^verbatim>\<open>/api/\<close> has a status from 200 to 299, and 75 otherwise, however many requests fail.
\<close>

theorem analyze_data_score:
  "score (analyze_data session) =
     (if list_all status_2xx (filter (\<lambda>req. str_in ''/api/'' (req_url req)) (network_requests session))
      then 95 else 75)"
  by (simp add: analyze_data_def Let_def length_filter_eq_iff)

text \<open>
  C5. For a session with no console entry of level \<^verbatim>\<open>error\<close> and no failed request
  (hence no session, React or API error, which are console errors), the technical analyzer
  returns score 100 and no critical issue.
\<close>

theorem analyze_technical_clean:
  assumes "filter (\<lambda>entry. map_of entry ''level'' = Some (PStr ''error'')) (console_logs session) = []"
    and "filter failed (network_requests session) = []"
  shows "\<exists>r. analyze_technical session = Inr r \<and> score r = 100 \<and> critical_issues r = []
           \<and> console_errors r = 0 \<and> failed_requests r = 0 \<and> session_errors r = 0
           \<and> react_errors r = 0 \<and> api_errors r = 0"
  using assms by (simp add: analyze_technical_def Let_def)

theorem analyze_technical_clean_witness:
  "filter (\<lambda>entry. map_of entry ''level'' = Some (PStr ''error'')) (console_logs clean_session) = []
   \<and> filter failed (network_requests clean_session) = []
   \<and> (\<exists>r. analyze_technical clean_session = Inr r \<and> score r = 100 \<and> critical_issues r = []
           \<and> console_errors r = 0 \<and> failed_requests r = 0 \<and> session_errors r = 0
           \<and> react_errors r = 0 \<and> api_errors r = 0)"
proof -
  have h1: "filter (\<lambda>entry. map_of entry ''level'' = Some (PStr ''error'')) (console_logs clean_session) = []"
    by (simp add: clean_session_def new_session_def)
  have h2: "filter failed (network_requests clean_session) = []"
    by (simp add: clean_session_def new_session_def simulated_requests_def)
  show ?thesis using analyze_technical_clean [OF h1 h2] h1 h2 by blast
qed




lemma py_round_nearest: "\<bar>py_round x 1 - x\<bar> \<le> 1 / 20"
proof -
  define s where "s = x * 10"
  define f where "f = \<lfloor>s\<rfloor>"
  have f: "of_int f \<le> s" "s < of_int f + 1" unfolding f_def by linarith+
  have x: "x = s / 10" by (simp add: s_def)
  show ?thesis
    unfolding py_round_def Let_def power_one_right s_def [symmetric] f_def [symmetric]
    using f by (auto simp: x abs_if field_simps)
qed

lemma floor_example: "\<lfloor>1625 / 2 :: rat\<rfloor> = 812"
  by (rule floor_unique) simp_all

text \<open>
  C2. For an analysis with the four perspectives, the report is produced and its overall
  score is the mean of the four scores rounded to one decimal, a tie going to the even
  digit: the scores 80, 60, 90 and 95 have mean 81.25 and give 81.2.
\<close>

theorem overall_score_mean:
  "(\<exists>rep w'. generate_debug_report session
               [(''technical'', T), (''ux'', U), (''performance'', P), (''data'', D)] w = (Inr rep, w')
      \<and> overall_score rep = py_round (of_int (score_of T + score_of U + score_of P + score_of D) / 4) 1
      \<and> perspectives rep = [(''technical'', T), (''ux'', U), (''performance'', P), (''data'', D)])
   \<and> py_round (of_int (80 + 60 + 90 + 95) / 4) 1 = 406 / 5
   \<and> \<bar>py_round x 1 - x\<bar> \<le> 1 / 20"
proof -
  have "py_round (of_int (80 + 60 + 90 + 95) / 4) 1 = 406 / 5"
    by (simp add: py_round_def Let_def floor_example)
  moreover have "\<exists>rep w'. generate_debug_report session
               [(''technical'', T), (''ux'', U), (''performance'', P), (''data'', D)] w = (Inr rep, w')
      \<and> overall_score rep = py_round (of_int (score_of T + score_of U + score_of P + score_of D) / 4) 1
      \<and> perspectives rep = [(''technical'', T), (''ux'', U), (''performance'', P), (''data'', D)]"
    by (simp add: generate_debug_report_def mean_score_def suggest_next_steps_def score_below_80_def
        bind_def of_sum_def return_def raise_def now_def now_isoformat_def Let_def add.assoc)
  ultimately show ?thesis using py_round_nearest by blast
qed

section \<open>The cap on the events of a session\<close>

lemma keep_last_append: "keep_last n (keep_last n xs @ ys) = keep_last n (xs @ ys)"
  by (cases "length xs \<le> n") (auto simp: keep_last_def add.commute)

lemma append_event_events:
  assumes "0 < cap"
  shows "events (append_event cap e s) = keep_last (nat cap) (events s @ [e])"
proof (cases "int (length (events s @ [e])) > cap")
  case True
  have "nat (max 0 (int (length (events s @ [e])) + - cap)) = length (events s @ [e]) - nat cap"
    using assms by (simp add: max_def) arith
  then show ?thesis
    using True assms by (simp add: append_event_def py_slice_from_def keep_last_def Let_def)
next
  case False
  then have "length (events s @ [e]) - nat cap = 0" using assms by simp
  then show ?thesis
    using False by (simp add: append_event_def keep_last_def Let_def)
qed

lemma log_event_active:
  assumes "current_session d = Some sid" "sid \<noteq> []" "sessions d sid = Some s"
  shows "log_event etype dat lvl cat (w, d) =
           (Inr (), (w\<lparr>ticks := Suc (ticks w)\<rparr>,
                     d\<lparr>sessions := (sessions d)(sid \<mapsto>
                          append_event (max_events d)
                            \<lparr> timestamp = clock w (ticks w), event_type = etype, data = dat,
                              level = lvl, category = cat \<rparr> s)\<rparr>))"
  using assms
  by (simp add: log_event_def bind_def get_self_def active_session_def lift_world_def now_def
      update_session_def sessions_getitem_def modify_self_def return_def raise_def)

lemma log_event_calls_run:
  assumes "current_session d = Some sid" "sid \<noteq> []" "sessions d sid = Some s" "0 < max_events d"
  shows "\<exists>w' d' s'. log_event_calls calls (w, d) = (Inr (), (w', d'))
           \<and> sessions d' sid = Some s'
           \<and> events s' = (if calls = [] then events s
                           else keep_last (nat (max_events d)) (events s @ events_of_calls (clock w) (ticks w) calls))"
  using assms
proof (induction calls arbitrary: w d s)
  case Nil
  then show ?case by (simp add: return_def)
next
  case (Cons c calls)
  obtain etype dat lvl cat where c: "c = (etype, dat, lvl, cat)" by (cases c) auto
  let ?e = "\<lparr> timestamp = clock w (ticks w), event_type = etype, data = dat, level = lvl, category = cat \<rparr>"
  let ?s1 = "append_event (max_events d) ?e s"
  let ?w1 = "w\<lparr>ticks := Suc (ticks w)\<rparr>"
  let ?d1 = "d\<lparr>sessions := (sessions d)(sid \<mapsto> ?s1)\<rparr>"
  have step: "log_event etype dat lvl cat (w, d) = (Inr (), (?w1, ?d1))"
    using Cons.prems by (simp add: log_event_active)
  have "\<exists>w' d' s'. log_event_calls calls (?w1, ?d1) = (Inr (), (w', d'))
           \<and> sessions d' sid = Some s'
           \<and> events s' = (if calls = [] then events ?s1
                           else keep_last (nat (max_events ?d1)) (events ?s1 @ events_of_calls (clock ?w1) (ticks ?w1) calls))"
    by (rule Cons.IH) (use Cons.prems in simp_all)
  then obtain w' d' s' where run: "log_event_calls calls (?w1, ?d1) = (Inr (), (w', d'))"
    and s': "sessions d' sid = Some s'"
    and ev: "events s' = (if calls = [] then events ?s1
                           else keep_last (nat (max_events d)) (events ?s1 @ events_of_calls (clock w) (Suc (ticks w)) calls))"
    by auto
  have "events s' = keep_last (nat (max_events d)) (events s @ ?e # events_of_calls (clock w) (Suc (ticks w)) calls)"
    using ev Cons.prems(4) by (simp add: append_event_events keep_last_append)
  then show ?case using run s' step by (simp add: c bind_def)
qed

text \<open>
  C1. With a current session in the store and a positive \<^verbatim>\<open>max_events\<close> (the constructor
  sets 1000), any non-empty sequence of calls of \<^verbatim>\<open>_log_event\<close> returns and leaves the
  session with at most \<^verbatim>\<open>max_events\<close> events: the last \<^verbatim>\<open>max_events\<close> of the events it had
  followed by the events logged, in that order.
\<close>

theorem log_event_cap:
  assumes "current_session d = Some sid" and "sid \<noteq> []" and "sessions d sid = Some s"
    and "0 < max_events d" and "calls \<noteq> []"
  shows "\<exists>w' d' s'. log_event_calls calls (w, d) = (Inr (), (w', d'))
           \<and> sessions d' sid = Some s'
           \<and> int (length (events s')) \<le> max_events d
           \<and> events s' = keep_last (nat (max_events d)) (events s @ events_of_calls (clock w) (ticks w) calls)"
proof -
  obtain w' d' s' where run: "log_event_calls calls (w, d) = (Inr (), (w', d'))"
    and s': "sessions d' sid = Some s'"
    and ev: "events s' = keep_last (nat (max_events d)) (events s @ events_of_calls (clock w) (ticks w) calls)"
    using log_event_calls_run [OF assms(1-4), of calls w] assms(5) by auto
  have "int (length (events s')) \<le> max_events d"
    using assms(4) by (simp add: ev keep_last_def)
  then show ?thesis using run s' ev by blast
qed

theorem log_event_cap_witness:
  "current_session capped_debugger = Some ''s1'' \<and> ''s1'' \<noteq> []
   \<and> sessions capped_debugger ''s1'' = Some (new_session ''s1'' ''http://localhost:5000'' 0)
   \<and> 0 < max_events capped_debugger \<and> three_calls \<noteq> []
   \<and> (\<exists>w' d' s'. log_event_calls three_calls (example_world (\<lambda>n. Spawn_error []) (\<lambda>s. None), capped_debugger)
                        = (Inr (), (w', d'))
          \<and> sessions d' ''s1'' = Some s'
          \<and> int (length (events s')) \<le> 2
          \<and> map event_type (events s') = [''second'', ''third''])"
proof -
  have h1: "current_session capped_debugger = Some ''s1''" by (simp add: capped_debugger_def)
  have h2: "''s1'' \<noteq> []" by simp
  have h3: "sessions capped_debugger ''s1'' = Some (new_session ''s1'' ''http://localhost:5000'' 0)"
    by (simp add: capped_debugger_def)
  have h4: "0 < max_events capped_debugger" by (simp add: capped_debugger_def)
  have h5: "three_calls \<noteq> []" by (simp add: three_calls_def)
  obtain w' d' s' where
    run: "log_event_calls three_calls (example_world (\<lambda>n. Spawn_error []) (\<lambda>s. None), capped_debugger)
            = (Inr (), (w', d'))"
    and s': "sessions d' ''s1'' = Some s'"
    and len: "int (length (events s')) \<le> max_events capped_debugger"
    and ev: "events s' = keep_last (nat (max_events capped_debugger))
               (events (new_session ''s1'' ''http://localhost:5000'' 0)
                @ events_of_calls (clock (example_world (\<lambda>n. Spawn_error []) (\<lambda>s. None)))
                    (ticks (example_world (\<lambda>n. Spawn_error []) (\<lambda>s. None))) three_calls)"
    using log_event_cap [OF h1 h2 h3 h4 h5] by blast
  have m: "map event_type (events s') = [''second'', ''third'']"
    by (simp add: ev capped_debugger_def init_def new_session_def three_calls_def keep_last_def)
  have l2: "int (length (events s')) \<le> 2" using len by (simp add: capped_debugger_def)
  have "\<exists>w' d' s'. log_event_calls three_calls (example_world (\<lambda>n. Spawn_error []) (\<lambda>s. None), capped_debugger)
                        = (Inr (), (w', d'))
          \<and> sessions d' ''s1'' = Some s'
          \<and> int (length (events s')) \<le> 2
          \<and> map event_type (events s') = [''second'', ''third'']"
  proof (intro exI conjI)
    show "log_event_calls three_calls (example_world (\<lambda>n. Spawn_error []) (\<lambda>s. None), capped_debugger)
            = (Inr (), (w', d'))" by (rule run)
    show "sessions d' ''s1'' = Some s'" by (rule s')
    show "int (length (events s')) \<le> 2" by (rule l2)
    show "map event_type (events s') = [''second'', ''third'']" by (rule m)
  qed
  then show ?thesis using h1 h3 h4 h5 by simp
qed

section \<open>Listing the tabs\<close>



section \<open>Waiting for an element\<close>







end
